theory Spec2Isabelle
  imports Complex_Main
begin

section \<open>The exponential spring contact force of Simbody\<close>

text \<open>
  A shallow embedding of \<^verbatim>\<open>Simbody/src/ExponentialSpringForce.cpp\<close>. The C++ type
  \<^verbatim>\<open>Real\<close> is a double. Where a statement is about the formulas the code evaluates, a
  \<^verbatim>\<open>Real\<close> is read as a mathematical real number, in exact arithmetic. Where a statement
  is about every value a double can take (the bounds on the normal force, the
  coefficients of friction after the setters), the functions concerned are translated a
  second time over the type \<open>Double\<close>, which keeps the infinities and NaN. What the code
  takes from
  SimTKcommon and from the multibody system (the constant \<^verbatim>\<open>SignificantReal\<close>, the
  \<^verbatim>\<open>Transform\<close> of the contact plane, the station kinematics) is not part of the file and
  enters the model as parameters.
\<close>

subsection \<open>Vec3\<close>

datatype Vec3 = Vec3 (elt0: real) (elt1: real) (elt2: real)

instantiation Vec3 :: ab_group_add
begin

definition zero_Vec3 :: Vec3 where
  "zero_Vec3 = Vec3 0 0 0"

definition plus_Vec3 :: "Vec3 \<Rightarrow> Vec3 \<Rightarrow> Vec3" where
  "plus_Vec3 a b = Vec3 (elt0 a + elt0 b) (elt1 a + elt1 b) (elt2 a + elt2 b)"

definition minus_Vec3 :: "Vec3 \<Rightarrow> Vec3 \<Rightarrow> Vec3" where
  "minus_Vec3 a b = Vec3 (elt0 a - elt0 b) (elt1 a - elt1 b) (elt2 a - elt2 b)"

definition uminus_Vec3 :: "Vec3 \<Rightarrow> Vec3" where
  "uminus_Vec3 a = Vec3 (- elt0 a) (- elt1 a) (- elt2 a)"

instance
  by intro_classes
    (simp_all add: zero_Vec3_def plus_Vec3_def minus_Vec3_def uminus_Vec3_def Vec3.expand)

end

instantiation Vec3 :: real_vector
begin

definition scaleR_Vec3 :: "real \<Rightarrow> Vec3 \<Rightarrow> Vec3" where
  "scaleR_Vec3 c a = Vec3 (c * elt0 a) (c * elt1 a) (c * elt2 a)"

instance
  by intro_classes
    (simp_all add: scaleR_Vec3_def plus_Vec3_def Vec3.expand algebra_simps)

end

text \<open>
  \<^verbatim>\<open>vec.norm()\<close> is the Euclidean length. Its triangle inequality rests on the
  Cauchy-Schwarz inequality in three dimensions.
\<close>

lemma cauchy3:
  fixes a0 a1 a2 b0 b1 b2 :: real
  shows "(a0 * b0 + a1 * b1 + a2 * b2)\<^sup>2 \<le> (a0\<^sup>2 + a1\<^sup>2 + a2\<^sup>2) * (b0\<^sup>2 + b1\<^sup>2 + b2\<^sup>2)"
proof -
  have "(a0\<^sup>2 + a1\<^sup>2 + a2\<^sup>2) * (b0\<^sup>2 + b1\<^sup>2 + b2\<^sup>2) - (a0 * b0 + a1 * b1 + a2 * b2)\<^sup>2
      = (a0 * b1 - a1 * b0)\<^sup>2 + (a0 * b2 - a2 * b0)\<^sup>2 + (a1 * b2 - a2 * b1)\<^sup>2"
    by (simp add: power2_eq_square algebra_simps)
  moreover have "0 \<le> (a0 * b1 - a1 * b0)\<^sup>2 + (a0 * b2 - a2 * b0)\<^sup>2 + (a1 * b2 - a2 * b1)\<^sup>2"
    by simp
  ultimately show ?thesis by linarith
qed

lemma sqrt_triangle3:
  fixes a0 a1 a2 b0 b1 b2 :: real
  shows "sqrt ((a0 + b0)\<^sup>2 + (a1 + b1)\<^sup>2 + (a2 + b2)\<^sup>2)
    \<le> sqrt (a0\<^sup>2 + a1\<^sup>2 + a2\<^sup>2) + sqrt (b0\<^sup>2 + b1\<^sup>2 + b2\<^sup>2)"
proof -
  define A where "A = a0\<^sup>2 + a1\<^sup>2 + a2\<^sup>2"
  define B where "B = b0\<^sup>2 + b1\<^sup>2 + b2\<^sup>2"
  define S where "S = a0 * b0 + a1 * b1 + a2 * b2"
  have A0: "0 \<le> A" and B0: "0 \<le> B" by (simp_all add: A_def B_def)
  have "S\<^sup>2 \<le> A * B" unfolding S_def A_def B_def by (rule cauchy3)
  then have "sqrt (S\<^sup>2) \<le> sqrt (A * B)" by (rule real_sqrt_le_mono)
  then have S: "S \<le> sqrt A * sqrt B" by (simp add: real_sqrt_mult)
  have "(a0 + b0)\<^sup>2 + (a1 + b1)\<^sup>2 + (a2 + b2)\<^sup>2 = A + B + 2 * S"
    by (simp add: A_def B_def S_def power2_eq_square algebra_simps)
  also have "\<dots> \<le> A + B + 2 * (sqrt A * sqrt B)" using S by simp
  also have "\<dots> = (sqrt A + sqrt B)\<^sup>2" using A0 B0 by (simp add: power2_sum)
  finally have "sqrt ((a0 + b0)\<^sup>2 + (a1 + b1)\<^sup>2 + (a2 + b2)\<^sup>2) \<le> sqrt ((sqrt A + sqrt B)\<^sup>2)"
    by (rule real_sqrt_le_mono)
  also have "\<dots> = sqrt A + sqrt B" using A0 B0 by simp
  finally show ?thesis by (simp add: A_def B_def)
qed

instantiation Vec3 :: real_normed_vector
begin

definition norm_Vec3 :: "Vec3 \<Rightarrow> real" where
  "norm_Vec3 a = sqrt ((elt0 a)\<^sup>2 + (elt1 a)\<^sup>2 + (elt2 a)\<^sup>2)"

definition dist_Vec3 :: "Vec3 \<Rightarrow> Vec3 \<Rightarrow> real" where
  "dist_Vec3 a b = norm (a - b)"

definition sgn_Vec3 :: "Vec3 \<Rightarrow> Vec3" where
  "sgn_Vec3 a = a /\<^sub>R norm a"

definition uniformity_Vec3 :: "(Vec3 \<times> Vec3) filter" where
  "uniformity_Vec3 = (INF e\<in>{0 <..}. principal {(a, b). dist a b < e})"

definition open_Vec3 :: "Vec3 set \<Rightarrow> bool" where
  "open_Vec3 U \<longleftrightarrow> (\<forall>a\<in>U. eventually (\<lambda>(a', b). a' = a \<longrightarrow> b \<in> U) uniformity)"

instance
proof
  fix a b :: Vec3 and r :: real
  show "dist a b = norm (a - b)" by (rule dist_Vec3_def)
  show "sgn a = a /\<^sub>R norm a" by (rule sgn_Vec3_def)
  show "(uniformity :: (Vec3 \<times> Vec3) filter) = (INF e\<in>{0 <..}. principal {(x, y). dist x y < e})"
    by (rule uniformity_Vec3_def)
  show "norm a = 0 \<longleftrightarrow> a = 0"
    by (cases a) (simp add: norm_Vec3_def zero_Vec3_def add_nonneg_eq_0_iff)
  show "norm (a + b) \<le> norm a + norm b"
    by (simp add: norm_Vec3_def plus_Vec3_def sqrt_triangle3)
  show "norm (r *\<^sub>R a) = \<bar>r\<bar> * norm a"
  proof -
    have "(r * elt0 a)\<^sup>2 + (r * elt1 a)\<^sup>2 + (r * elt2 a)\<^sup>2
        = r\<^sup>2 * ((elt0 a)\<^sup>2 + (elt1 a)\<^sup>2 + (elt2 a)\<^sup>2)"
      by (simp add: power2_eq_square algebra_simps)
    then show ?thesis
      by (simp add: norm_Vec3_def scaleR_Vec3_def real_sqrt_mult)
  qed
next
  fix U :: "Vec3 set"
  show "open U \<longleftrightarrow> (\<forall>x\<in>U. eventually (\<lambda>(x', y). x' = x \<longrightarrow> y \<in> U) uniformity)"
    by (rule open_Vec3_def)
qed

end

text \<open>\<^verbatim>\<open>vec / scalar\<close>, element by element.\<close>

definition vdiv :: "Vec3 \<Rightarrow> real \<Rightarrow> Vec3" where
  "vdiv a c = Vec3 (elt0 a / c) (elt1 a / c) (elt2 a / c)"

text \<open>\<^verbatim>\<open>vec.normalize()\<close>: the vector divided by its norm.\<close>

definition normalizeVec :: "Vec3 \<Rightarrow> Vec3" where
  "normalizeVec a = vdiv a (norm a)"

text \<open>The element assignments \<^verbatim>\<open>vec[i] = c\<close>.\<close>

definition set0 :: "Vec3 \<Rightarrow> real \<Rightarrow> Vec3" where
  "set0 a c = Vec3 c (elt1 a) (elt2 a)"

definition set1 :: "Vec3 \<Rightarrow> real \<Rightarrow> Vec3" where
  "set1 a c = Vec3 (elt0 a) c (elt2 a)"

definition set2 :: "Vec3 \<Rightarrow> real \<Rightarrow> Vec3" where
  "set2 a c = Vec3 (elt0 a) (elt1 a) c"

subsection \<open>Data\<close>

text \<open>
  The contact plane's \<^verbatim>\<open>Transform\<close> is declared in SimTKcommon; the code uses three of
  its methods, taken here as they are named.
\<close>

record Transform =
  shiftBaseStationToFrame :: "Vec3 \<Rightarrow> Vec3"
  xformBaseVecToFrame :: "Vec3 \<Rightarrow> Vec3"
  xformFrameVecToBase :: "Vec3 \<Rightarrow> Vec3"

text \<open>
  \<^verbatim>\<open>ExponentialSpringParameters\<close> is declared elsewhere; the fields are what its getters
  return (\<^verbatim>\<open>getShapeParameters\<close>, \<^verbatim>\<open>getNormalViscosity\<close>, \<^verbatim>\<open>getElasticity\<close>,
  \<^verbatim>\<open>getViscosity\<close>, \<^verbatim>\<open>getSlidingTimeConstant\<close>, \<^verbatim>\<open>getSettleVelocity\<close>).
\<close>

record ExponentialSpringParameters =
  ShapeD0 :: real
  ShapeD1 :: real
  ShapeD2 :: real
  NormalViscosity :: real
  Elasticity :: real
  Viscosity :: real
  SlidingTimeConstant :: real
  SettleVelocity :: real

record ExponentialSpringData =
  p_G :: Vec3
  v_G :: Vec3
  p :: Vec3
  v :: Vec3
  pz :: real
  vz :: real
  pxy :: Vec3
  vxy :: Vec3
  fzElas :: real
  fzDamp :: real
  fz :: real
  mu :: real
  fxyLimit :: real
  fricElas :: Vec3
  fricDamp :: Vec3
  fric :: Vec3
  fxy :: real
  limitReached :: bool
  f :: Vec3
  f_G :: Vec3

text \<open>The data members of \<^verbatim>\<open>ExponentialSpringForceImpl\<close> (body and station apart).\<close>

record ExponentialSpringForceImpl =
  params :: ExponentialSpringParameters
  defaultData :: ExponentialSpringData
  contactPlane :: Transform
  defaultMus :: real
  defaultMuk :: real
  defaultSprZero :: Vec3

text \<open>
  What the subsystem keeps in the \<^verbatim>\<open>State\<close>: the continuous variable Z (Sliding) and
  its derivative, the discrete variables for the two coefficients of friction, the
  auto-update discrete variable SprZero with its update value in the cache, and the data
  cache entry.
\<close>

record State =
  Z :: real
  ZDot :: real
  MuStatic :: real
  MuKinetic :: real
  SprZero :: Vec3
  SprZeroInCache :: Vec3
  SprZeroInCacheRealized :: bool
  Data :: ExponentialSpringData

subsection \<open>Construction, coefficients of friction, topology\<close>

definition newExponentialSpringForceImpl ::
  "Transform \<Rightarrow> real \<Rightarrow> real \<Rightarrow> ExponentialSpringParameters \<Rightarrow> ExponentialSpringData
    \<Rightarrow> ExponentialSpringForceImpl" where
  "newExponentialSpringForceImpl plane mus muk prm dd =
    (let dMus = (if mus < 0 then 0 else mus);
         dMuk = (if muk < 0 then 0 else muk);
         dMuk = (if dMuk > dMus then dMus else dMuk)
     in \<lparr>params = prm, defaultData = dd, contactPlane = plane,
         defaultMus = dMus, defaultMuk = dMuk, defaultSprZero = Vec3 0 0 0\<rparr>)"

definition setMuStatic :: "State \<Rightarrow> real \<Rightarrow> State" where
  "setMuStatic state mus0 =
    (let mus = (if mus0 < 0 then 0 else mus0);
         state = state\<lparr>MuStatic := mus\<rparr>;
         muk = MuKinetic state
     in if muk > mus then state\<lparr>MuKinetic := mus\<rparr> else state)"

definition setMuKinetic :: "State \<Rightarrow> real \<Rightarrow> State" where
  "setMuKinetic state muk0 =
    (let muk = (if muk0 < 0 then 0 else muk0);
         state = state\<lparr>MuKinetic := muk\<rparr>;
         mus = MuStatic state
     in if muk > mus then state\<lparr>MuStatic := muk\<rparr> else state)"

definition realizeSubsystemTopologyImpl :: "ExponentialSpringForceImpl \<Rightarrow> State \<Rightarrow> State" where
  "realizeSubsystemTopologyImpl impl state =
    (let state = state\<lparr>MuStatic := defaultMus impl\<rparr>;
         state = state\<lparr>MuKinetic := defaultMuk impl\<rparr>;
         state = state\<lparr>SprZero := defaultSprZero impl\<rparr>;
         initialValue = 1;
         state = state\<lparr>Z := initialValue\<rparr>;
         state = state\<lparr>Data := defaultData impl\<rparr>
     in state)"

subsection \<open>Dynamics: the contact force\<close>

definition ClampAboveZero :: "real \<Rightarrow> real \<Rightarrow> real" where
  "ClampAboveZero val maxv = (if val > maxv then maxv else if val < 0 then 0 else val)"

text \<open>
  \<^verbatim>\<open>realizeSubsystemDynamicsImpl\<close> is one long function. It is translated block by
  block, in the order of the source and under the headings of its comments; each block
  takes the data cache entry as the blocks before it left it. The argument
  \<open>SignificantReal\<close> is the constant of that name; the station's location and velocity
  in Ground are what \<^verbatim>\<open>findStationLocationInGround\<close> and
  \<^verbatim>\<open>findStationVelocityInGround\<close> return.
\<close>

text \<open>Position and velocity in the contact frame, normal and tangential parts.\<close>

definition transformToContactFrame ::
  "real \<Rightarrow> ExponentialSpringForceImpl \<Rightarrow> Vec3 \<Rightarrow> Vec3 \<Rightarrow> ExponentialSpringData
    \<Rightarrow> ExponentialSpringData" where
  "transformToContactFrame SignificantReal impl stationLocation stationVelocity data =
    (let data = data\<lparr>p_G := stationLocation\<rparr>;
         data = data\<lparr>v_G := stationVelocity\<rparr>;
         data = data\<lparr>p := shiftBaseStationToFrame (contactPlane impl) (p_G data)\<rparr>;
         data = data\<lparr>v := xformBaseVecToFrame (contactPlane impl) (v_G data)\<rparr>;
         data = data\<lparr>v := (if \<bar>elt0 (v data)\<bar> < SignificantReal
                            then set0 (v data) 0 else v data)\<rparr>;
         data = data\<lparr>v := (if \<bar>elt1 (v data)\<bar> < SignificantReal
                            then set1 (v data) 0 else v data)\<rparr>;
         data = data\<lparr>pz := elt2 (p data)\<rparr>;
         data = data\<lparr>vz := elt2 (v data)\<rparr>;
         data = data\<lparr>pxy := set2 (p data) 0\<rparr>;
         data = data\<lparr>vxy := set2 (v data) 0\<rparr>
     in data)"

text \<open>Normal force: elastic part, damping part, total, bounds.\<close>

definition normalForce ::
  "ExponentialSpringForceImpl \<Rightarrow> ExponentialSpringData \<Rightarrow> ExponentialSpringData" where
  "normalForce impl data =
    (let d0 = ShapeD0 (params impl);
         d1 = ShapeD1 (params impl);
         d2 = ShapeD2 (params impl);
         kvNorm = NormalViscosity (params impl);
         data = data\<lparr>fzElas := d1 * exp (- d2 * (pz data - d0))\<rparr>;
         data = data\<lparr>fzDamp := - kvNorm * vz data * fzElas data\<rparr>;
         data = data\<lparr>fz := fzElas data + fzDamp data\<rparr>;
         data = data\<lparr>fz := ClampAboveZero (fz data) 100000\<rparr>
     in data)"

text \<open>The sliding state as the friction computation reads it, bounded by 0 and 1.\<close>

definition slidingOnRead :: "State \<Rightarrow> real" where
  "slidingOnRead state =
    (let sliding = Z state;
         sliding = (if sliding < 0 then 0 else if sliding > 1 then 1 else sliding)
     in sliding)"

text \<open>The instantaneous coefficient of friction and the friction limit.\<close>

definition frictionLimit :: "real \<Rightarrow> State \<Rightarrow> ExponentialSpringData \<Rightarrow> ExponentialSpringData" where
  "frictionLimit sliding state data =
    (let mus = MuStatic state;
         muk = MuKinetic state;
         data = data\<lparr>mu := mus - sliding * (mus - muk)\<rparr>;
         data = data\<lparr>fxyLimit := mu data * fz data\<rparr>
     in data)"

text \<open>
  The local \<open>fricLimit\<close> (Sliding = 1): the damping force, zero when the friction
  limit is below \<open>SignificantReal\<close>, capped at the friction limit otherwise.
\<close>

definition fricLimitOf :: "real \<Rightarrow> real \<Rightarrow> Vec3 \<Rightarrow> Vec3" where
  "fricLimitOf SignificantReal limit fricDampSpr =
    (if limit < SignificantReal then 0
     else (let fricLimit = fricDampSpr
           in if norm fricLimit > limit then limit *\<^sub>R normalizeVec fricLimit
              else fricLimit))"

text \<open>
  The spring model (Sliding = 0): the new values of \<open>limitReached\<close>, \<open>fricElasSpr\<close>
  and \<open>fricDampSpr\<close> after the test of the friction limit.
\<close>

definition limitSpring :: "real \<Rightarrow> Vec3 \<Rightarrow> Vec3 \<Rightarrow> bool \<times> Vec3 \<times> Vec3" where
  "limitSpring limit fricElasSpr fricDampSpr =
    (let fricSpr = fricElasSpr + fricDampSpr;
         fxySpr = norm fricSpr
     in if fxySpr > limit
        then (let scale = limit / fxySpr
              in (True, scale *\<^sub>R fricElasSpr, scale *\<^sub>R fricDampSpr))
        else (False, fricElasSpr, fricDampSpr))"

text \<open>Friction: the two extremes, blended according to the sliding state.\<close>

definition friction ::
  "real \<Rightarrow> ExponentialSpringForceImpl \<Rightarrow> real \<Rightarrow> Vec3 \<Rightarrow> ExponentialSpringData
    \<Rightarrow> ExponentialSpringData" where
  "friction SignificantReal impl sliding p0 data =
    (let kpFric = Elasticity (params impl);
         kvFric = Viscosity (params impl);
         fricDampSpr = (- kvFric) *\<^sub>R vxy data;
         fricLimit = fricLimitOf SignificantReal (fxyLimit data) fricDampSpr;
         fricElasSpr = (- kpFric) *\<^sub>R (pxy data - p0);
         spr = limitSpring (fxyLimit data) fricElasSpr fricDampSpr;
         data = data\<lparr>limitReached := fst spr\<rparr>;
         fricElasSpr = fst (snd spr);
         fricDampSpr = snd (snd spr);
         data = data\<lparr>fricElas := (1 - sliding) *\<^sub>R fricElasSpr\<rparr>;
         data = data\<lparr>fricDamp := fricDampSpr + sliding *\<^sub>R (fricLimit - fricDampSpr)\<rparr>;
         data = data\<lparr>fric := fricElas data + fricDamp data\<rparr>;
         data = data\<lparr>fxy := norm (fric data)\<rparr>
     in data)"

text \<open>The new spring zero, made to lie in the contact plane.\<close>

definition newSprZero :: "ExponentialSpringForceImpl \<Rightarrow> ExponentialSpringData \<Rightarrow> Vec3" where
  "newSprZero impl data =
    (let kpFric = Elasticity (params impl);
         p0 = pxy data + vdiv (fricElas data) kpFric;
         p0 = set2 p0 0
     in p0)"

text \<open>The total spring force in the contact frame and in Ground.\<close>

definition totalForce ::
  "ExponentialSpringForceImpl \<Rightarrow> ExponentialSpringData \<Rightarrow> ExponentialSpringData" where
  "totalForce impl data =
    (let data = data\<lparr>f := fric data\<rparr>;
         data = data\<lparr>f := set2 (f data) (fz data)\<rparr>;
         data = data\<lparr>f_G := xformFrameVecToBase (contactPlane impl) (f data)\<rparr>
     in data)"

text \<open>
  The whole function. The spring zero is read from the state, and the new one is written
  to the cache (the update value of the auto-update variable) and marked realized; the
  force handed to \<^verbatim>\<open>applyForceToBodyPoint\<close> is the \<open>f_G\<close> of the data written.
\<close>

definition realizeSubsystemDynamicsImpl ::
  "real \<Rightarrow> ExponentialSpringForceImpl \<Rightarrow> Vec3 \<Rightarrow> Vec3 \<Rightarrow> State \<Rightarrow> State" where
  "realizeSubsystemDynamicsImpl SignificantReal impl stationLocation stationVelocity state =
    (let data = Data state;
         data = transformToContactFrame SignificantReal impl stationLocation stationVelocity data;
         data = normalForce impl data;
         sliding = slidingOnRead state;
         data = frictionLimit sliding state data;
         p0 = SprZero state;
         data = friction SignificantReal impl sliding p0 data;
         p0 = newSprZero impl data;
         state = state\<lparr>SprZeroInCache := p0\<rparr>;
         state = state\<lparr>SprZeroInCacheRealized := True\<rparr>;
         data = totalForce impl data
     in state\<lparr>Data := data\<rparr>)"

subsection \<open>Acceleration: the derivative of the Sliding state\<close>

text \<open>
  \<^verbatim>\<open>realizeSubsystemAccelerationImpl\<close>. The station's acceleration in Ground is read and
  its norm taken, and neither is used; \<open>vSettle\<close> is read and not used.
\<close>

definition realizeSubsystemAccelerationImpl ::
  "real \<Rightarrow> ExponentialSpringForceImpl \<Rightarrow> Vec3 \<Rightarrow> State \<Rightarrow> State" where
  "realizeSubsystemAccelerationImpl SignificantReal impl stationAcceleration state =
    (let kTau = 1 / SlidingTimeConstant (params impl);
         vSettle = SettleVelocity (params impl);
         sliding = Z state;
         data = Data state;
         slidingDot = 0;
         a = stationAcceleration;
         aMag = norm a;
         slidingDot =
           (if \<not> limitReached data \<and> norm (vxy data) < 0.001 \<and> \<bar>vz data\<bar> < 0.001
            then - kTau * sliding else slidingDot);
         slidingDot =
           (if limitReached data \<or> fz data < SignificantReal
            then kTau * (1 - sliding) else slidingDot)
     in state\<lparr>ZDot := slidingDot\<rparr>)"

subsection \<open>Potential energy and the spring zero\<close>

definition calcPotentialEnergy :: "ExponentialSpringForceImpl \<Rightarrow> State \<Rightarrow> real" where
  "calcPotentialEnergy impl state =
    (let data = Data state;
         d2 = ShapeD2 (params impl);
         energy = fzElas data / d2;
         p0Cache = SprZeroInCache state;
         r = pxy data - p0Cache;
         energy = energy + 0.5 * Elasticity (params impl) * norm r * norm r
     in energy)"

definition resetSprZero :: "ExponentialSpringForceImpl \<Rightarrow> Vec3 \<Rightarrow> State \<Rightarrow> State" where
  "resetSprZero impl stationLocation state =
    (let pG = stationLocation;
         pP = shiftBaseStationToFrame (contactPlane impl) pG;
         pP = set2 pP 0
     in state\<lparr>SprZero := pP\<rparr>)"

text \<open>The state a newly constructed subsystem starts from: constructor, then topology.\<close>

definition constructedState ::
  "Transform \<Rightarrow> real \<Rightarrow> real \<Rightarrow> ExponentialSpringParameters \<Rightarrow> ExponentialSpringData
    \<Rightarrow> State \<Rightarrow> State" where
  "constructedState plane mus muk prm dd state =
    realizeSubsystemTopologyImpl (newExponentialSpringForceImpl plane mus muk prm dd) state"

text \<open>A call of one of the two setters, and a sequence of such calls.\<close>

datatype MuCall = SetMuStatic real | SetMuKinetic real

fun applyMuCall :: "State \<Rightarrow> MuCall \<Rightarrow> State" where
  "applyMuCall state (SetMuStatic m) = setMuStatic state m"
| "applyMuCall state (SetMuKinetic m) = setMuKinetic state m"

definition applyMuCalls :: "State \<Rightarrow> MuCall list \<Rightarrow> State" where
  "applyMuCalls state cs = foldl applyMuCall state cs"

subsection \<open>Real as a double\<close>

text \<open>
  The values of a double: the finite reals, the two infinities and NaN. The result of
  an operation on finite values is exact unless its magnitude reaches \<open>2 ^ 1024\<close>, where
  a double overflows to an infinity; the operations on infinities and NaN and the
  comparisons (false whenever an operand is NaN) are those of IEEE 754. Rounding inside
  the range and the sign of zero are not modelled.
\<close>

datatype Double = Fin real | PInf | NInf | NaN

definition roundD :: "real \<Rightarrow> Double" where
  "roundD r = (if 2 ^ 1024 \<le> r then PInf else if r \<le> - (2 ^ 1024) then NInf else Fin r)"

fun dneg :: "Double \<Rightarrow> Double" where
  "dneg (Fin a) = Fin (- a)"
| "dneg PInf = NInf"
| "dneg NInf = PInf"
| "dneg NaN = NaN"

fun dadd :: "Double \<Rightarrow> Double \<Rightarrow> Double" where
  "dadd (Fin a) (Fin b) = roundD (a + b)"
| "dadd NaN _ = NaN"
| "dadd _ NaN = NaN"
| "dadd PInf NInf = NaN"
| "dadd NInf PInf = NaN"
| "dadd PInf _ = PInf"
| "dadd _ PInf = PInf"
| "dadd NInf _ = NInf"
| "dadd _ NInf = NInf"

definition dsub :: "Double \<Rightarrow> Double \<Rightarrow> Double" where
  "dsub a b = dadd a (dneg b)"

fun dmul :: "Double \<Rightarrow> Double \<Rightarrow> Double" where
  "dmul (Fin a) (Fin b) = roundD (a * b)"
| "dmul NaN _ = NaN"
| "dmul _ NaN = NaN"
| "dmul (Fin a) PInf = (if 0 < a then PInf else if a < 0 then NInf else NaN)"
| "dmul (Fin a) NInf = (if 0 < a then NInf else if a < 0 then PInf else NaN)"
| "dmul PInf (Fin b) = (if 0 < b then PInf else if b < 0 then NInf else NaN)"
| "dmul NInf (Fin b) = (if 0 < b then NInf else if b < 0 then PInf else NaN)"
| "dmul PInf PInf = PInf"
| "dmul NInf NInf = PInf"
| "dmul PInf NInf = NInf"
| "dmul NInf PInf = NInf"

fun dexp :: "Double \<Rightarrow> Double" where
  "dexp (Fin a) = roundD (exp a)"
| "dexp PInf = PInf"
| "dexp NInf = Fin 0"
| "dexp NaN = NaN"

fun dless :: "Double \<Rightarrow> Double \<Rightarrow> bool" where
  "dless (Fin a) (Fin b) = (a < b)"
| "dless (Fin a) PInf = True"
| "dless NInf (Fin b) = True"
| "dless NInf PInf = True"
| "dless _ _ = False"

fun dle :: "Double \<Rightarrow> Double \<Rightarrow> bool" where
  "dle (Fin a) (Fin b) = (a \<le> b)"
| "dle NaN _ = False"
| "dle _ NaN = False"
| "dle NInf _ = True"
| "dle _ PInf = True"
| "dle _ _ = False"

text \<open>
  \<^verbatim>\<open>ClampAboveZero\<close> and the normal force (the elastic part, the damping part, the
  total and its bounds) over doubles, from the shape parameters, the normal viscosity and
  the normal position and velocity of the station.
\<close>

definition ClampAboveZeroD :: "Double \<Rightarrow> Double \<Rightarrow> Double" where
  "ClampAboveZeroD val maxv =
    (if dless maxv val then maxv else if dless val (Fin 0) then Fin 0 else val)"

record NormalForceD =
  fzElasD :: Double
  fzDampD :: Double
  fzD :: Double

definition normalForceD ::
  "Double \<Rightarrow> Double \<Rightarrow> Double \<Rightarrow> Double \<Rightarrow> Double \<Rightarrow> Double \<Rightarrow> NormalForceD" where
  "normalForceD d0 d1 d2 kvNorm pzD vzD =
    (let elas = dmul d1 (dexp (dmul (dneg d2) (dsub pzD d0)));
         damp = dmul (dmul (dneg kvNorm) vzD) elas;
         total = dadd elas damp;
         total = ClampAboveZeroD total (Fin 100000)
     in \<lparr>fzElasD = elas, fzDampD = damp, fzD = total\<rparr>)"

text \<open>
  The coefficients of friction over doubles: the defaults the constructor keeps, and
  the two setters on the pair of discrete variables.
\<close>

record CoefficientsD =
  MuStaticD :: Double
  MuKineticD :: Double

definition newCoefficientsD :: "Double \<Rightarrow> Double \<Rightarrow> CoefficientsD" where
  "newCoefficientsD mus muk =
    (let dMus = (if dless mus (Fin 0) then Fin 0 else mus);
         dMuk = (if dless muk (Fin 0) then Fin 0 else muk);
         dMuk = (if dless dMus dMuk then dMus else dMuk)
     in \<lparr>MuStaticD = dMus, MuKineticD = dMuk\<rparr>)"

definition setMuStaticD :: "CoefficientsD \<Rightarrow> Double \<Rightarrow> CoefficientsD" where
  "setMuStaticD state mus0 =
    (let mus = (if dless mus0 (Fin 0) then Fin 0 else mus0);
         state = state\<lparr>MuStaticD := mus\<rparr>;
         muk = MuKineticD state
     in if dless mus muk then state\<lparr>MuKineticD := mus\<rparr> else state)"

definition setMuKineticD :: "CoefficientsD \<Rightarrow> Double \<Rightarrow> CoefficientsD" where
  "setMuKineticD state muk0 =
    (let muk = (if dless muk0 (Fin 0) then Fin 0 else muk0);
         state = state\<lparr>MuKineticD := muk\<rparr>;
         mus = MuStaticD state
     in if dless mus muk then state\<lparr>MuStaticD := muk\<rparr> else state)"

definition muInvD :: "CoefficientsD \<Rightarrow> bool" where
  "muInvD state = (dle (Fin 0) (MuKineticD state) \<and> dle (MuKineticD state) (MuStaticD state))"

text \<open>The coefficients of friction are valid: \<open>0 \<le> muk \<le> mus\<close>.\<close>

definition muInv :: "State \<Rightarrow> bool" where
  "muInv state = (0 \<le> MuKinetic state \<and> MuKinetic state \<le> MuStatic state)"

subsection \<open>A concrete subsystem\<close>

text \<open>
  Concrete values on which the statements below are evaluated: a contact plane that
  coincides with Ground, unit parameters, and the state of a subsystem constructed with
  \<open>mus = 0.7\<close> and \<open>muk = 0.5\<close>.
\<close>

definition groundPlane :: Transform where
  "groundPlane = \<lparr>shiftBaseStationToFrame = (\<lambda>s. s), xformBaseVecToFrame = (\<lambda>s. s),
     xformFrameVecToBase = (\<lambda>s. s)\<rparr>"

definition zeroData :: ExponentialSpringData where
  "zeroData = \<lparr>p_G = 0, v_G = 0, p = 0, v = 0, pz = 0, vz = 0, pxy = 0, vxy = 0,
     fzElas = 0, fzDamp = 0, fz = 0, mu = 0, fxyLimit = 0, fricElas = 0, fricDamp = 0,
     fric = 0, fxy = 0, limitReached = False, f = 0, f_G = 0\<rparr>"

definition unitParams :: ExponentialSpringParameters where
  "unitParams = \<lparr>ShapeD0 = 0, ShapeD1 = 1, ShapeD2 = 1, NormalViscosity = 1, Elasticity = 1,
     Viscosity = 1, SlidingTimeConstant = 1, SettleVelocity = 1 / 100\<rparr>"

definition zeroState :: State where
  "zeroState = \<lparr>Z = 0, ZDot = 0, MuStatic = 0, MuKinetic = 0, SprZero = 0,
     SprZeroInCache = 0, SprZeroInCacheRealized = False, Data = zeroData\<rparr>"

definition exampleImpl :: ExponentialSpringForceImpl where
  "exampleImpl = newExponentialSpringForceImpl groundPlane (7 / 10) (1 / 2) unitParams zeroData"

definition exampleState :: State where
  "exampleState = realizeSubsystemTopologyImpl exampleImpl zeroState"

definition exampleSignificantReal :: real where
  "exampleSignificantReal = 1 / 10 ^ 14"

subsection \<open>Coefficients of friction\<close>

lemma setMuStatic_fields:
  "MuStatic (setMuStatic state m) = max 0 m"
  "MuKinetic (setMuStatic state m) = min (MuKinetic state) (max 0 m)"
  by (simp_all add: setMuStatic_def Let_def max_def min_def)

lemma setMuKinetic_fields:
  "MuKinetic (setMuKinetic state m) = max 0 m"
  "MuStatic (setMuKinetic state m) = max (MuStatic state) (max 0 m)"
  by (simp_all add: setMuKinetic_def Let_def max_def min_def)

lemma muInv_applyMuCall:
  "muInv state \<Longrightarrow> muInv (applyMuCall state c)"
  by (cases c) (auto simp: muInv_def setMuStatic_fields setMuKinetic_fields)

lemma muInv_foldl:
  "muInv state \<Longrightarrow> muInv (foldl applyMuCall state cs)"
  by (induction cs arbitrary: state) (simp_all add: muInv_applyMuCall)

lemma muInv_constructedState:
  "muInv (constructedState plane mus muk prm dd state)"
  by (simp add: muInv_def constructedState_def realizeSubsystemTopologyImpl_def
      newExponentialSpringForceImpl_def Let_def)

text \<open>
  In exact arithmetic the constructor leaves \<open>0 \<le> defaultMuk \<le> defaultMus\<close>, and
  after construction (and the topology realization that copies the defaults into the
  state) and any sequence of \<^verbatim>\<open>setMuStatic\<close> / \<^verbatim>\<open>setMuKinetic\<close> calls
  \<open>0 \<le> muKinetic \<le> muStatic\<close>. \<^verbatim>\<open>setMuStatic\<close> stores its argument clamped to
  \<open>\<ge> 0\<close> and lowers muKinetic to it when muKinetic is larger; \<^verbatim>\<open>setMuKinetic\<close> stores
  its argument clamped to \<open>\<ge> 0\<close> and raises muStatic to it when it is larger.
\<close>

lemma coefficient_invariant_exact:
  "0 \<le> defaultMuk (newExponentialSpringForceImpl plane mus muk prm dd)
    \<and> defaultMuk (newExponentialSpringForceImpl plane mus muk prm dd)
        \<le> defaultMus (newExponentialSpringForceImpl plane mus muk prm dd)
    \<and> 0 \<le> MuKinetic (applyMuCalls (constructedState plane mus muk prm dd state) cs)
    \<and> MuKinetic (applyMuCalls (constructedState plane mus muk prm dd state) cs)
        \<le> MuStatic (applyMuCalls (constructedState plane mus muk prm dd state) cs)
    \<and> 0 \<le> MuStatic (applyMuCalls (constructedState plane mus muk prm dd state) cs)
    \<and> MuStatic (setMuStatic st m) = max 0 m
    \<and> MuKinetic (setMuStatic st m) = min (MuKinetic st) (max 0 m)
    \<and> MuKinetic (setMuKinetic st m) = max 0 m
    \<and> MuStatic (setMuKinetic st m) = max (MuStatic st) (max 0 m)"
proof -
  have "muInv (applyMuCalls (constructedState plane mus muk prm dd state) cs)"
    unfolding applyMuCalls_def by (rule muInv_foldl) (rule muInv_constructedState)
  then show ?thesis
    by (simp add: muInv_def setMuStatic_fields setMuKinetic_fields
        newExponentialSpringForceImpl_def Let_def)
qed

text \<open>
  Over doubles the same holds as long as no argument is NaN: the constructor
  establishes the invariant and each setter keeps it.
\<close>

lemma muInvD_setMuStaticD:
  "muInvD state \<Longrightarrow> m \<noteq> NaN \<Longrightarrow> muInvD (setMuStaticD state m)"
  by (cases m; cases "MuStaticD state"; cases "MuKineticD state")
    (auto simp: muInvD_def setMuStaticD_def Let_def)

lemma muInvD_setMuKineticD:
  "muInvD state \<Longrightarrow> m \<noteq> NaN \<Longrightarrow> muInvD (setMuKineticD state m)"
  by (cases m; cases "MuStaticD state"; cases "MuKineticD state")
    (auto simp: muInvD_def setMuKineticD_def Let_def)

lemma muInvD_newCoefficientsD:
  "mus \<noteq> NaN \<Longrightarrow> muk \<noteq> NaN \<Longrightarrow> muInvD (newCoefficientsD mus muk)"
  by (cases mus; cases muk) (auto simp: muInvD_def newCoefficientsD_def Let_def)

text \<open>
  C5. The code does not keep the invariant for every double. A NaN argument passes both
  tests of a setter (\<^verbatim>\<open>mus < 0.0\<close> and \<^verbatim>\<open>muk > mus\<close> are false) and is stored: after
  \<^verbatim>\<open>setMuStatic(state, NaN)\<close> on a subsystem constructed with \<open>mus = 0.7\<close> and
  \<open>muk = 0.5\<close>, muStatic is NaN, and neither \<open>muKinetic \<le> muStatic\<close> nor
  \<open>0 \<le> muStatic\<close> holds. \<^verbatim>\<open>setMuKinetic\<close> and the constructor store a NaN the
  same way.
\<close>

theorem C5_NaN_coefficient:
  "setMuStaticD (newCoefficientsD (Fin (7 / 10)) (Fin (1 / 2))) NaN
      = \<lparr>MuStaticD = NaN, MuKineticD = Fin (1 / 2)\<rparr>
    \<and> \<not> dle (MuKineticD (setMuStaticD (newCoefficientsD (Fin (7 / 10)) (Fin (1 / 2))) NaN))
          (MuStaticD (setMuStaticD (newCoefficientsD (Fin (7 / 10)) (Fin (1 / 2))) NaN))
    \<and> \<not> dle (Fin 0) (MuStaticD (setMuStaticD (newCoefficientsD (Fin (7 / 10)) (Fin (1 / 2))) NaN))
    \<and> setMuKineticD (newCoefficientsD (Fin (7 / 10)) (Fin (1 / 2))) NaN
      = \<lparr>MuStaticD = Fin (7 / 10), MuKineticD = NaN\<rparr>
    \<and> newCoefficientsD NaN (Fin (1 / 2)) = \<lparr>MuStaticD = NaN, MuKineticD = Fin (1 / 2)\<rparr>"
  by (simp add: setMuStaticD_def setMuKineticD_def newCoefficientsD_def Let_def)

subsection \<open>What each block writes and what it leaves alone\<close>

lemma transformToContactFrame_fields:
  "p (transformToContactFrame sig impl pG vG data) = shiftBaseStationToFrame (contactPlane impl) pG"
  "v (transformToContactFrame sig impl pG vG data) =
     Vec3 (if \<bar>elt0 (xformBaseVecToFrame (contactPlane impl) vG)\<bar> < sig then 0
           else elt0 (xformBaseVecToFrame (contactPlane impl) vG))
          (if \<bar>elt1 (xformBaseVecToFrame (contactPlane impl) vG)\<bar> < sig then 0
           else elt1 (xformBaseVecToFrame (contactPlane impl) vG))
          (elt2 (xformBaseVecToFrame (contactPlane impl) vG))"
  "pz (transformToContactFrame sig impl pG vG data) = elt2 (p (transformToContactFrame sig impl pG vG data))"
  "vz (transformToContactFrame sig impl pG vG data) = elt2 (v (transformToContactFrame sig impl pG vG data))"
  "pxy (transformToContactFrame sig impl pG vG data) = set2 (p (transformToContactFrame sig impl pG vG data)) 0"
  "vxy (transformToContactFrame sig impl pG vG data) = set2 (v (transformToContactFrame sig impl pG vG data)) 0"
  by (simp_all add: transformToContactFrame_def Let_def set0_def set1_def)

lemma normalForce_fields:
  "fzElas (normalForce impl data) =
     ShapeD1 (params impl) * exp (- ShapeD2 (params impl) * (pz data - ShapeD0 (params impl)))"
  "fzDamp (normalForce impl data) = - NormalViscosity (params impl) * vz data * fzElas (normalForce impl data)"
  "fz (normalForce impl data) =
     ClampAboveZero (fzElas (normalForce impl data) + fzDamp (normalForce impl data)) 100000"
  "p (normalForce impl data) = p data"
  "v (normalForce impl data) = v data"
  "pz (normalForce impl data) = pz data"
  "vz (normalForce impl data) = vz data"
  "pxy (normalForce impl data) = pxy data"
  "vxy (normalForce impl data) = vxy data"
  by (simp_all add: normalForce_def Let_def)

lemma frictionLimit_fields:
  "mu (frictionLimit s state data) = MuStatic state - s * (MuStatic state - MuKinetic state)"
  "fxyLimit (frictionLimit s state data) = mu (frictionLimit s state data) * fz data"
  "p (frictionLimit s state data) = p data"
  "v (frictionLimit s state data) = v data"
  "pz (frictionLimit s state data) = pz data"
  "vz (frictionLimit s state data) = vz data"
  "pxy (frictionLimit s state data) = pxy data"
  "vxy (frictionLimit s state data) = vxy data"
  "fzElas (frictionLimit s state data) = fzElas data"
  "fzDamp (frictionLimit s state data) = fzDamp data"
  "fz (frictionLimit s state data) = fz data"
  by (simp_all add: frictionLimit_def Let_def)

lemma friction_fields:
  "limitReached (friction sig impl s p0 data) =
     fst (limitSpring (fxyLimit data) ((- Elasticity (params impl)) *\<^sub>R (pxy data - p0))
       ((- Viscosity (params impl)) *\<^sub>R vxy data))"
  "fricElas (friction sig impl s p0 data) =
     (1 - s) *\<^sub>R fst (snd (limitSpring (fxyLimit data)
       ((- Elasticity (params impl)) *\<^sub>R (pxy data - p0))
       ((- Viscosity (params impl)) *\<^sub>R vxy data)))"
  "fricDamp (friction sig impl s p0 data) =
     snd (snd (limitSpring (fxyLimit data) ((- Elasticity (params impl)) *\<^sub>R (pxy data - p0))
       ((- Viscosity (params impl)) *\<^sub>R vxy data)))
     + s *\<^sub>R (fricLimitOf sig (fxyLimit data) ((- Viscosity (params impl)) *\<^sub>R vxy data)
         - snd (snd (limitSpring (fxyLimit data)
             ((- Elasticity (params impl)) *\<^sub>R (pxy data - p0))
             ((- Viscosity (params impl)) *\<^sub>R vxy data))))"
  "fric (friction sig impl s p0 data) =
     fricElas (friction sig impl s p0 data) + fricDamp (friction sig impl s p0 data)"
  "fxy (friction sig impl s p0 data) = norm (fric (friction sig impl s p0 data))"
  "p (friction sig impl s p0 data) = p data"
  "v (friction sig impl s p0 data) = v data"
  "pz (friction sig impl s p0 data) = pz data"
  "vz (friction sig impl s p0 data) = vz data"
  "pxy (friction sig impl s p0 data) = pxy data"
  "vxy (friction sig impl s p0 data) = vxy data"
  "fzElas (friction sig impl s p0 data) = fzElas data"
  "fzDamp (friction sig impl s p0 data) = fzDamp data"
  "fz (friction sig impl s p0 data) = fz data"
  "mu (friction sig impl s p0 data) = mu data"
  "fxyLimit (friction sig impl s p0 data) = fxyLimit data"
  by (simp_all add: friction_def Let_def)

lemma totalForce_fields:
  "f (totalForce impl data) = set2 (fric data) (fz data)"
  "f_G (totalForce impl data) = xformFrameVecToBase (contactPlane impl) (f (totalForce impl data))"
  "p (totalForce impl data) = p data"
  "v (totalForce impl data) = v data"
  "pz (totalForce impl data) = pz data"
  "vz (totalForce impl data) = vz data"
  "pxy (totalForce impl data) = pxy data"
  "vxy (totalForce impl data) = vxy data"
  "fzElas (totalForce impl data) = fzElas data"
  "fzDamp (totalForce impl data) = fzDamp data"
  "fz (totalForce impl data) = fz data"
  "mu (totalForce impl data) = mu data"
  "fxyLimit (totalForce impl data) = fxyLimit data"
  "limitReached (totalForce impl data) = limitReached data"
  "fricElas (totalForce impl data) = fricElas data"
  "fricDamp (totalForce impl data) = fricDamp data"
  "fric (totalForce impl data) = fric data"
  "fxy (totalForce impl data) = fxy data"
  by (simp_all add: totalForce_def Let_def)

lemmas stage_fields = normalForce_fields(4-9) frictionLimit_fields(3-11) friction_fields(6-16)
  totalForce_fields(3-18)

lemma realize_state:
  "Z (realizeSubsystemDynamicsImpl sig impl pG vG st) = Z st"
  "ZDot (realizeSubsystemDynamicsImpl sig impl pG vG st) = ZDot st"
  "MuStatic (realizeSubsystemDynamicsImpl sig impl pG vG st) = MuStatic st"
  "MuKinetic (realizeSubsystemDynamicsImpl sig impl pG vG st) = MuKinetic st"
  "SprZero (realizeSubsystemDynamicsImpl sig impl pG vG st) = SprZero st"
  "SprZeroInCache (realizeSubsystemDynamicsImpl sig impl pG vG st)
     = newSprZero impl (Data (realizeSubsystemDynamicsImpl sig impl pG vG st))"
  by (simp_all add: realizeSubsystemDynamicsImpl_def Let_def newSprZero_def stage_fields)

lemma realize_kinematics:
  fixes sig impl pG vG st
  defines "d \<equiv> Data (realizeSubsystemDynamicsImpl sig impl pG vG st)"
  shows "p d = shiftBaseStationToFrame (contactPlane impl) pG"
    and "v d = Vec3 (if \<bar>elt0 (xformBaseVecToFrame (contactPlane impl) vG)\<bar> < sig then 0
           else elt0 (xformBaseVecToFrame (contactPlane impl) vG))
          (if \<bar>elt1 (xformBaseVecToFrame (contactPlane impl) vG)\<bar> < sig then 0
           else elt1 (xformBaseVecToFrame (contactPlane impl) vG))
          (elt2 (xformBaseVecToFrame (contactPlane impl) vG))"
    and "pz d = elt2 (p d)"
    and "vz d = elt2 (v d)"
    and "pxy d = set2 (p d) 0"
    and "vxy d = set2 (v d) 0"
  unfolding d_def
  by (simp_all add: realizeSubsystemDynamicsImpl_def Let_def stage_fields
      transformToContactFrame_fields)

lemma realize_normal:
  fixes sig impl pG vG st
  defines "d \<equiv> Data (realizeSubsystemDynamicsImpl sig impl pG vG st)"
  shows "fzElas d = ShapeD1 (params impl) * exp (- ShapeD2 (params impl) * (pz d - ShapeD0 (params impl)))"
    and "fzDamp d = - NormalViscosity (params impl) * vz d * fzElas d"
    and "fz d = ClampAboveZero (fzElas d + fzDamp d) 100000"
    and "mu d = MuStatic st - slidingOnRead st * (MuStatic st - MuKinetic st)"
    and "fxyLimit d = mu d * fz d"
  unfolding d_def
  by (simp_all add: realizeSubsystemDynamicsImpl_def Let_def stage_fields
      normalForce_fields(1-3) frictionLimit_fields(1-2))

lemma realize_friction:
  fixes sig impl pG vG st
  defines "d \<equiv> Data (realizeSubsystemDynamicsImpl sig impl pG vG st)"
  defines "E \<equiv> (- Elasticity (params impl)) *\<^sub>R (pxy d - SprZero st)"
  defines "D \<equiv> (- Viscosity (params impl)) *\<^sub>R vxy d"
  shows "limitReached d = fst (limitSpring (fxyLimit d) E D)"
    and "fricElas d = (1 - slidingOnRead st) *\<^sub>R fst (snd (limitSpring (fxyLimit d) E D))"
    and "fricDamp d = snd (snd (limitSpring (fxyLimit d) E D))
          + slidingOnRead st *\<^sub>R (fricLimitOf sig (fxyLimit d) D - snd (snd (limitSpring (fxyLimit d) E D)))"
    and "fric d = fricElas d + fricDamp d"
    and "fxy d = norm (fric d)"
    and "f d = set2 (fric d) (fz d)"
    and "f_G d = xformFrameVecToBase (contactPlane impl) (f d)"
  unfolding d_def E_def D_def
  by (simp_all add: realizeSubsystemDynamicsImpl_def Let_def stage_fields
      friction_fields(1-5) totalForce_fields(1-2))

subsection \<open>Vectors, limits and the friction blocks\<close>

lemma ClampAboveZero_clamp:
  "ClampAboveZero val 100000 = max 0 (min val 100000)"
  by (simp add: ClampAboveZero_def max_def min_def)

lemma slidingOnRead_clamp: "slidingOnRead st = max 0 (min 1 (Z st))"
  by (simp add: slidingOnRead_def Let_def max_def min_def)

lemma scale_normalizeVec: "c *\<^sub>R normalizeVec a = (c / norm a) *\<^sub>R a"
  by (simp add: normalizeVec_def vdiv_def scaleR_Vec3_def)

lemma norm_scale_to_limit:
  fixes a :: Vec3
  assumes "0 \<le> c" "c < norm a"
  shows "norm ((c / norm a) *\<^sub>R a) = c"
proof -
  have "0 < norm a" using assms by linarith
  then show ?thesis using assms by simp
qed

lemma fricLimitOf_cases:
  "limit < sig \<Longrightarrow> fricLimitOf sig limit D = 0"
  "\<not> limit < sig \<Longrightarrow> fricLimitOf sig limit D
      = (if norm D > limit then (limit / norm D) *\<^sub>R D else D)"
  by (simp_all add: fricLimitOf_def Let_def scale_normalizeVec)

lemma norm_fricLimitOf:
  assumes "0 \<le> limit"
  shows "norm (fricLimitOf sig limit D) \<le> limit"
proof (cases "limit < sig")
  case True
  then show ?thesis using assms by (simp add: fricLimitOf_cases)
next
  case False
  show ?thesis
  proof (cases "norm D > limit")
    case True
    with assms have "norm ((limit / norm D) *\<^sub>R D) = limit"
      by (intro norm_scale_to_limit)
    with True False show ?thesis by (simp add: fricLimitOf_cases)
  next
    case F2: False
    with False show ?thesis by (simp add: fricLimitOf_cases)
  qed
qed

lemma limitSpring_saturated:
  assumes "norm (E + D) > limit"
  shows "limitSpring limit E D
    = (True, (limit / norm (E + D)) *\<^sub>R E, (limit / norm (E + D)) *\<^sub>R D)"
  using assms by (simp add: limitSpring_def Let_def)

lemma limitSpring_unsaturated:
  assumes "\<not> norm (E + D) > limit"
  shows "limitSpring limit E D = (False, E, D)"
  using assms by (simp add: limitSpring_def Let_def)

lemma fxyLimit_nonneg:
  assumes "0 \<le> MuKinetic st" "MuKinetic st \<le> MuStatic st"
  shows "0 \<le> fxyLimit (Data (realizeSubsystemDynamicsImpl sig impl pG vG st))"
proof -
  let ?s = "slidingOnRead st"
  have s: "0 \<le> ?s" "?s \<le> 1" by (simp_all add: slidingOnRead_clamp)
  have "MuStatic st - ?s * (MuStatic st - MuKinetic st)
      = (1 - ?s) * MuStatic st + ?s * MuKinetic st"
    by (simp add: algebra_simps)
  moreover have "0 \<le> (1 - ?s) * MuStatic st + ?s * MuKinetic st"
    using s assms by (intro add_nonneg_nonneg mult_nonneg_nonneg) simp_all
  ultimately have "0 \<le> mu (Data (realizeSubsystemDynamicsImpl sig impl pG vG st))"
    by (simp add: realize_normal(4))
  moreover have "0 \<le> fz (Data (realizeSubsystemDynamicsImpl sig impl pG vG st))"
    by (simp add: realize_normal(3) ClampAboveZero_def)
  ultimately show ?thesis
    by (simp add: realize_normal(5))
qed

lemma blend_bound:
  fixes A L :: Vec3
  assumes "0 \<le> s" "s \<le> 1" "norm A \<le> c" "norm L \<le> c"
  shows "norm ((1 - s) *\<^sub>R A + s *\<^sub>R L) \<le> c"
proof -
  have "norm ((1 - s) *\<^sub>R A + s *\<^sub>R L) \<le> norm ((1 - s) *\<^sub>R A) + norm (s *\<^sub>R L)"
    by (rule norm_triangle_ineq)
  also have "\<dots> = (1 - s) * norm A + s * norm L"
    using assms by simp
  also have "\<dots> \<le> (1 - s) * c + s * c"
    using assms by (intro add_mono mult_left_mono) simp_all
  also have "\<dots> = c" by (simp add: algebra_simps)
  finally show ?thesis .
qed

lemma example_facts:
  "contactPlane exampleImpl = groundPlane"
  "params exampleImpl = unitParams"
  "Z exampleState = 1"
  "MuStatic exampleState = 7 / 10"
  "MuKinetic exampleState = 1 / 2"
  "SprZero exampleState = 0"
  by (simp_all add: exampleImpl_def exampleState_def newExponentialSpringForceImpl_def
      realizeSubsystemTopologyImpl_def Let_def zero_Vec3_def)

lemmas example_simps = example_facts groundPlane_def unitParams_def exampleSignificantReal_def
  realize_kinematics realize_normal slidingOnRead_def ClampAboveZero_def Let_def set2_def
  zero_Vec3_def plus_Vec3_def minus_Vec3_def scaleR_Vec3_def norm_Vec3_def

lemma example_sliding_limit:
  "fxyLimit (Data (realizeSubsystemDynamicsImpl exampleSignificantReal exampleImpl
      (Vec3 2 0 0) (Vec3 u 0 0) exampleState)) = 1 / 2"
  by (simp add: example_simps)

lemma example_stuck_limit:
  "fxyLimit (Data (realizeSubsystemDynamicsImpl exampleSignificantReal exampleImpl
      (Vec3 2 0 0) (Vec3 u 0 0) (exampleState\<lparr>Z := 0\<rparr>))) = 7 / 10"
  by (simp add: example_simps)

lemma elt2_limitSpring:
  "elt2 E = 0 \<Longrightarrow> elt2 (fst (snd (limitSpring limit E D))) = 0"
  by (simp add: limitSpring_def Let_def scaleR_Vec3_def)

lemma elt2_newSprZero: "elt2 (newSprZero impl data) = 0"
  by (simp add: newSprZero_def Let_def set2_def)

lemma sprZero_in_plane:
  "elt2 (SprZero (constructedState plane mus muk prm dd state)) = 0"
  "elt2 (SprZero (resetSprZero impl pG state)) = 0"
  "elt2 (SprZeroInCache (realizeSubsystemDynamicsImpl sig impl pG vG state)) = 0"
  by (simp_all add: constructedState_def realizeSubsystemTopologyImpl_def
      newExponentialSpringForceImpl_def resetSprZero_def Let_def set2_def
      realize_state(6) elt2_newSprZero)

lemma anchor_roundtrip:
  assumes "kp \<noteq> 0" "elt2 a = 0" "elt2 F = 0"
  shows "(- kp) *\<^sub>R (a - set2 (a + vdiv F kp) 0) = F"
  using assms
  by (simp add: Vec3.expand scaleR_Vec3_def minus_Vec3_def plus_Vec3_def set2_def vdiv_def)

lemma example_stuck_fricElas:
  "fricElas (Data (realizeSubsystemDynamicsImpl exampleSignificantReal exampleImpl
      (Vec3 2 0 0) (Vec3 0 0 0) (exampleState\<lparr>Z := 0\<rparr>))) = Vec3 (- (7 / 10)) 0 0"
proof -
  let ?st = "exampleState\<lparr>Z := 0\<rparr>"
  let ?d = "Data (realizeSubsystemDynamicsImpl exampleSignificantReal exampleImpl
        (Vec3 2 0 0) (Vec3 0 0 0) ?st)"
  let ?E = "(- Elasticity (params exampleImpl)) *\<^sub>R (pxy ?d - SprZero ?st)"
  let ?D = "(- Viscosity (params exampleImpl)) *\<^sub>R vxy ?d"
  have lim: "fxyLimit ?d = 7 / 10" by (rule example_stuck_limit)
  have E: "?E = Vec3 (- 2) 0 0" by (simp add: example_simps)
  have D: "?D = 0" by (simp add: example_simps)
  have nE: "norm (Vec3 (- 2) 0 0) = 2" by (simp add: norm_Vec3_def)
  have sat: "fxyLimit ?d < norm (?E + ?D)" by (simp only: lim E D add_0_right nE)
  have s0: "slidingOnRead ?st = 0" by (simp add: slidingOnRead_def)
  have "fricElas ?d = (1 - slidingOnRead ?st) *\<^sub>R fst (snd (limitSpring (fxyLimit ?d) ?E ?D))"
    by (rule realize_friction(2))
  also have "\<dots> = (fxyLimit ?d / norm (?E + ?D)) *\<^sub>R ?E"
    by (simp only: limitSpring_saturated[OF sat] s0 fst_conv snd_conv) simp
  also have "\<dots> = ((7 / 10) / 2) *\<^sub>R Vec3 (- 2) 0 0"
    by (simp only: lim E D add_0_right nE)
  also have "\<dots> = Vec3 (- (7 / 10)) 0 0"
    by (simp add: scaleR_Vec3_def)
  finally show ?thesis .
qed

lemma example_frictionless_limit:
  "fxyLimit (Data (realizeSubsystemDynamicsImpl exampleSignificantReal exampleImpl
      (Vec3 2 0 0) (Vec3 2 0 0) (exampleState\<lparr>MuStatic := 0, MuKinetic := 0\<rparr>))) = 0"
  by (simp add: realize_normal)

subsection \<open>The derivative of the Sliding state\<close>

text \<open>
  C1. The derivative written by \<^verbatim>\<open>realizeSubsystemAccelerationImpl\<close>, for any state and
  any data left by the force evaluation: \<open>(1 - s) / tau\<close> when the friction limit was
  reached or \<open>fz\<close> is below \<open>SignificantReal\<close>; otherwise \<open>- s / tau\<close> when the limit
  was not reached and \<open>|vxy| < 0.001\<close> and \<open>|vz| < 0.001\<close>; otherwise 0. The rise
  condition is tested last in the code and so comes first here: rise overwrites decay.
\<close>

theorem C1_sliding_dot:
  "ZDot (realizeSubsystemAccelerationImpl sig impl aG st) =
    (if limitReached (Data st) \<or> fz (Data st) < sig
       then (1 - Z st) / SlidingTimeConstant (params impl)
     else if \<not> limitReached (Data st) \<and> norm (vxy (Data st)) < 0.001
          \<and> \<bar>vz (Data st)\<bar> < 0.001
       then - Z st / SlidingTimeConstant (params impl)
     else 0)"
  by (simp add: realizeSubsystemAccelerationImpl_def Let_def)

subsection \<open>The normal force\<close>

text \<open>
  In exact arithmetic, after every force evaluation
  \<open>fzElas = d1 * exp (- d2 * (pz - d0))\<close>, \<open>fzDamp = - kvNormal * vz * fzElas\<close> and
  \<open>fz\<close> is their sum clamped to \<open>[0, 100000]\<close>.
\<close>

lemma normal_force_exact:
  "fzElas (Data (realizeSubsystemDynamicsImpl sig impl pG vG st))
      = ShapeD1 (params impl) * exp (- ShapeD2 (params impl)
          * (pz (Data (realizeSubsystemDynamicsImpl sig impl pG vG st)) - ShapeD0 (params impl)))
    \<and> fzDamp (Data (realizeSubsystemDynamicsImpl sig impl pG vG st))
      = - NormalViscosity (params impl) * vz (Data (realizeSubsystemDynamicsImpl sig impl pG vG st))
          * fzElas (Data (realizeSubsystemDynamicsImpl sig impl pG vG st))
    \<and> fz (Data (realizeSubsystemDynamicsImpl sig impl pG vG st))
      = max 0 (min (fzElas (Data (realizeSubsystemDynamicsImpl sig impl pG vG st))
          + fzDamp (Data (realizeSubsystemDynamicsImpl sig impl pG vG st))) 100000)
    \<and> 0 \<le> fz (Data (realizeSubsystemDynamicsImpl sig impl pG vG st))
    \<and> fz (Data (realizeSubsystemDynamicsImpl sig impl pG vG st)) \<le> 100000"
  by (simp add: realize_normal(1-3) ClampAboveZero_clamp)

text \<open>
  Over doubles \<^verbatim>\<open>ClampAboveZero\<close> bounds every value but NaN, which it returns as
  it is: both of its comparisons are false.
\<close>

lemma ClampAboveZeroD_range:
  "val \<noteq> NaN \<Longrightarrow> dle (Fin 0) (ClampAboveZeroD val (Fin 100000))
    \<and> dle (ClampAboveZeroD val (Fin 100000)) (Fin 100000)"
  by (cases val) (auto simp: ClampAboveZeroD_def)

lemma ClampAboveZeroD_NaN: "ClampAboveZeroD NaN maxv = NaN"
  by (simp add: ClampAboveZeroD_def)

lemma exp_1000_overflows: "(2::real) ^ 1024 \<le> exp 1000"
proof -
  have "(5 / 2 :: real) \<le> exp 1"
    using exp_lower_Taylor_quadratic[of "1::real"] by simp
  then have "(5 / 2 :: real) ^ 1000 \<le> exp 1 ^ 1000"
    by (intro power_mono) simp_all
  also have "exp (1::real) ^ 1000 = exp 1000"
    using exp_of_nat_mult[of 1000 "1::real"] by simp
  finally have "(5 / 2 :: real) ^ 1000 \<le> exp 1000" .
  moreover have "(2::real) ^ 1024 \<le> (5 / 2) ^ 1000"
    by (simp add: power_divide)
  ultimately show ?thesis by linarith
qed

lemma roundD_small: "\<bar>r\<bar> < 2 ^ 1024 \<Longrightarrow> roundD r = Fin r"
  by (auto simp: roundD_def)

text \<open>
  C4. The code does not keep \<open>fz\<close> in \<open>[0, 100000]\<close> for every input. With unit
  parameters (\<open>d0 = 0\<close>, \<open>d1 = d2 = kvNormal = 1\<close>) and the station at rest 1000 below
  the plane (\<open>pz = - 1000\<close>, \<open>vz = 0\<close>), \<open>exp 1000\<close> overflows: \<open>fzElas\<close> is
  infinite, \<open>fzDamp = - 1 * 0 * fzElas\<close> is NaN, their sum is NaN, and
  \<^verbatim>\<open>ClampAboveZero\<close> returns it: \<open>fz\<close> is neither \<open>\<ge> 0\<close> nor \<open>\<le> 100000\<close>.
\<close>

theorem C4_overflow_NaN:
  "normalForceD (Fin 0) (Fin 1) (Fin 1) (Fin 1) (Fin (- 1000)) (Fin 0)
      = \<lparr>fzElasD = PInf, fzDampD = NaN, fzD = NaN\<rparr>
    \<and> \<not> dle (Fin 0) (fzD (normalForceD (Fin 0) (Fin 1) (Fin 1) (Fin 1) (Fin (- 1000)) (Fin 0)))
    \<and> \<not> dle (fzD (normalForceD (Fin 0) (Fin 1) (Fin 1) (Fin 1) (Fin (- 1000)) (Fin 0)))
          (Fin 100000)"
proof -
  have e: "roundD (exp 1000) = PInf"
    using exp_1000_overflows by (simp add: roundD_def)
  have "normalForceD (Fin 0) (Fin 1) (Fin 1) (Fin 1) (Fin (- 1000)) (Fin 0)
      = \<lparr>fzElasD = PInf, fzDampD = NaN, fzD = NaN\<rparr>"
    by (simp add: normalForceD_def Let_def dsub_def roundD_small e ClampAboveZeroD_def)
  then show ?thesis by simp
qed

subsection \<open>The sliding state on read and the friction limit\<close>

text \<open>
  C6. The force evaluation reads the sliding state clamped to \<open>[0, 1]\<close> and leaves
  the integrated value \<open>Z\<close> as it was (as does the derivative update);
  \<open>mu = mus - sliding * (mus - muk)\<close> with the clamped value, and
  \<open>fxyLimit = mu * fz\<close>.
\<close>

theorem C6_sliding_on_read:
  "mu (Data (realizeSubsystemDynamicsImpl sig impl pG vG st))
      = MuStatic st - max 0 (min 1 (Z st)) * (MuStatic st - MuKinetic st)
    \<and> fxyLimit (Data (realizeSubsystemDynamicsImpl sig impl pG vG st))
      = mu (Data (realizeSubsystemDynamicsImpl sig impl pG vG st))
        * fz (Data (realizeSubsystemDynamicsImpl sig impl pG vG st))
    \<and> slidingOnRead st = max 0 (min 1 (Z st))
    \<and> 0 \<le> slidingOnRead st \<and> slidingOnRead st \<le> 1
    \<and> Z (realizeSubsystemDynamicsImpl sig impl pG vG st) = Z st
    \<and> Z (realizeSubsystemAccelerationImpl sig impl aG st) = Z st"
  by (simp add: realize_normal(4-5) realize_state(1) slidingOnRead_clamp
      realizeSubsystemAccelerationImpl_def Let_def)

subsection \<open>Potential energy\<close>

text \<open>
  C7. The potential energy is \<open>fzElas / d2 + 0.5 * kpFriction * |pxy - anchor|\<^sup>2\<close>,
  the anchor being the spring zero held in the cache: the value of the state variable
  \<open>SprZero\<close> does not enter, and after a force evaluation the cached value is the new
  spring zero that evaluation computed.
\<close>

theorem C7_potential_energy:
  "calcPotentialEnergy impl st
      = fzElas (Data st) / ShapeD2 (params impl)
        + 0.5 * Elasticity (params impl) * (norm (pxy (Data st) - SprZeroInCache st))\<^sup>2
    \<and> calcPotentialEnergy impl (st\<lparr>SprZero := a\<rparr>) = calcPotentialEnergy impl st
    \<and> SprZeroInCache (realizeSubsystemDynamicsImpl sig impl pG vG st)
      = newSprZero impl (Data (realizeSubsystemDynamicsImpl sig impl pG vG st))"
  by (simp add: calcPotentialEnergy_def Let_def power2_eq_square realize_state(6))

subsection \<open>Velocities below the noise threshold\<close>

text \<open>
  C8, as the code has it. Of the velocity in the contact frame, the two tangential
  components (elements 0 and 1) are set to zero when their magnitude is below
  \<open>SignificantReal\<close>; the normal component (element 2) is taken as it is, so \<open>vz\<close>
  is the transformed normal velocity whatever its size. \<open>vxy\<close> is the snapped velocity
  with its normal component zeroed.
\<close>

theorem C8_snap_tangential:
  "v (Data (realizeSubsystemDynamicsImpl sig impl pG vG st)) =
      Vec3 (if \<bar>elt0 (xformBaseVecToFrame (contactPlane impl) vG)\<bar> < sig then 0
            else elt0 (xformBaseVecToFrame (contactPlane impl) vG))
           (if \<bar>elt1 (xformBaseVecToFrame (contactPlane impl) vG)\<bar> < sig then 0
            else elt1 (xformBaseVecToFrame (contactPlane impl) vG))
           (elt2 (xformBaseVecToFrame (contactPlane impl) vG))
    \<and> vz (Data (realizeSubsystemDynamicsImpl sig impl pG vG st))
      = elt2 (xformBaseVecToFrame (contactPlane impl) vG)
    \<and> vxy (Data (realizeSubsystemDynamicsImpl sig impl pG vG st))
      = set2 (v (Data (realizeSubsystemDynamicsImpl sig impl pG vG st))) 0"
  by (simp add: realize_kinematics)

text \<open>
  C8 as stated fails: a normal velocity of \<open>1 / 10 ^ 15\<close>, below the threshold
  \<open>1 / 10 ^ 14\<close>, reaches \<open>vz\<close> unchanged and enters the normal damping force.
\<close>

theorem C8_normal_velocity_not_snapped:
  "\<bar>elt2 (xformBaseVecToFrame (contactPlane exampleImpl) (Vec3 0 0 (1 / 10 ^ 15)))\<bar>
      < exampleSignificantReal
    \<and> vz (Data (realizeSubsystemDynamicsImpl exampleSignificantReal exampleImpl
          (Vec3 0 0 0) (Vec3 0 0 (1 / 10 ^ 15)) exampleState)) = 1 / 10 ^ 15
    \<and> vz (Data (realizeSubsystemDynamicsImpl exampleSignificantReal exampleImpl
          (Vec3 0 0 0) (Vec3 0 0 (1 / 10 ^ 15)) exampleState)) \<noteq> 0
    \<and> fzDamp (Data (realizeSubsystemDynamicsImpl exampleSignificantReal exampleImpl
          (Vec3 0 0 0) (Vec3 0 0 (1 / 10 ^ 15)) exampleState)) = - (1 / 10 ^ 15)"
  by (simp add: realize_kinematics realize_normal(1,2) example_facts groundPlane_def
      unitParams_def exampleSignificantReal_def)

subsection \<open>When the spring model exceeds the friction limit\<close>

text \<open>
  C2, as the code has it. Let \<open>E = - kpFriction * (pxy - anchor)\<close> and
  \<open>D = - kvFriction * vxy\<close>, with valid coefficients of friction. When
  \<open>|E + D| > fxyLimit\<close>, \<open>limitReached\<close> is set, both \<open>E\<close> and \<open>D\<close> are scaled by
  \<open>scale = fxyLimit / |E + D|\<close> (which lies in \<open>[0, 1)\<close>), and the scaled spring force
  has magnitude \<open>fxyLimit\<close>. The friction force returned is the blend
  \<open>(1 - sliding) * (scale * E + scale * D) + sliding * fricLimit\<close>: its magnitude is at
  most \<open>fxyLimit\<close>, and equal to \<open>fxyLimit\<close> when the sliding value read is 0.
\<close>

theorem C2_saturation:
  fixes sig impl pG vG st
  defines "d \<equiv> Data (realizeSubsystemDynamicsImpl sig impl pG vG st)"
  defines "E \<equiv> (- Elasticity (params impl)) *\<^sub>R (pxy d - SprZero st)"
  defines "D \<equiv> (- Viscosity (params impl)) *\<^sub>R vxy d"
  defines "scale \<equiv> fxyLimit d / norm (E + D)"
  assumes mu: "0 \<le> MuKinetic st" "MuKinetic st \<le> MuStatic st"
  assumes sat: "norm (E + D) > fxyLimit d"
  shows "limitReached d
    \<and> fricElas d = (1 - slidingOnRead st) *\<^sub>R (scale *\<^sub>R E)
    \<and> fricDamp d = scale *\<^sub>R D
        + slidingOnRead st *\<^sub>R (fricLimitOf sig (fxyLimit d) D - scale *\<^sub>R D)
    \<and> 0 \<le> scale \<and> scale < 1
    \<and> norm (scale *\<^sub>R E + scale *\<^sub>R D) = fxyLimit d
    \<and> fric d = (1 - slidingOnRead st) *\<^sub>R (scale *\<^sub>R E + scale *\<^sub>R D)
        + slidingOnRead st *\<^sub>R fricLimitOf sig (fxyLimit d) D
    \<and> norm (fric d) \<le> fxyLimit d
    \<and> (slidingOnRead st = 0 \<longrightarrow> norm (fric d) = fxyLimit d)"
proof -
  let ?s = "slidingOnRead st"
  let ?L = "fricLimitOf sig (fxyLimit d) D"
  have lim0: "0 \<le> fxyLimit d"
    unfolding d_def using mu by (rule fxyLimit_nonneg)
  have pos: "0 < norm (E + D)" using lim0 sat by linarith
  have spr: "limitSpring (fxyLimit d) E D = (True, scale *\<^sub>R E, scale *\<^sub>R D)"
    unfolding scale_def using sat by (rule limitSpring_saturated)
  have r: "limitReached d"
    using spr realize_friction(1)[of sig impl pG vG st]
    by (simp add: d_def E_def D_def)
  have fe: "fricElas d = (1 - ?s) *\<^sub>R (scale *\<^sub>R E)"
    using spr realize_friction(2)[of sig impl pG vG st]
    by (simp add: d_def E_def D_def)
  have fd: "fricDamp d = scale *\<^sub>R D + ?s *\<^sub>R (?L - scale *\<^sub>R D)"
    using spr realize_friction(3)[of sig impl pG vG st]
    by (simp add: d_def E_def D_def)
  have sc: "0 \<le> scale" "scale < 1"
    using lim0 pos sat by (simp_all add: scale_def)
  have "scale *\<^sub>R E + scale *\<^sub>R D = (fxyLimit d / norm (E + D)) *\<^sub>R (E + D)"
    by (simp add: scale_def scaleR_add_right)
  then have n: "norm (scale *\<^sub>R E + scale *\<^sub>R D) = fxyLimit d"
    using norm_scale_to_limit[OF lim0 sat] by simp
  have "fric d = fricElas d + fricDamp d"
    unfolding d_def by (rule realize_friction(4))
  then have fr: "fric d = (1 - ?s) *\<^sub>R (scale *\<^sub>R E + scale *\<^sub>R D) + ?s *\<^sub>R ?L"
    by (simp add: fe fd algebra_simps)
  have s: "0 \<le> ?s" "?s \<le> 1" by (simp_all add: slidingOnRead_clamp)
  have "norm ?L \<le> fxyLimit d" using lim0 by (rule norm_fricLimitOf)
  with s n have le: "norm (fric d) \<le> fxyLimit d"
    unfolding fr by (intro blend_bound) simp_all
  have eq: "?s = 0 \<Longrightarrow> norm (fric d) = fxyLimit d"
    using n by (simp add: fr)
  show ?thesis
    using r fe fd sc n fr le eq by simp
qed

text \<open>
  The hypotheses of C2 hold for the concrete subsystem with its sliding state set to 0,
  the station at rest and displaced by 2 from the spring zero: the limit 0.7 is
  exceeded, and the friction force returned has magnitude 0.7.
\<close>

theorem C2_saturation_witness:
  "0 \<le> MuKinetic (exampleState\<lparr>Z := 0\<rparr>)
    \<and> MuKinetic (exampleState\<lparr>Z := 0\<rparr>) \<le> MuStatic (exampleState\<lparr>Z := 0\<rparr>)
    \<and> fxyLimit (Data (realizeSubsystemDynamicsImpl exampleSignificantReal exampleImpl
        (Vec3 2 0 0) (Vec3 0 0 0) (exampleState\<lparr>Z := 0\<rparr>)))
      < norm ((- Elasticity (params exampleImpl)) *\<^sub>R
          (pxy (Data (realizeSubsystemDynamicsImpl exampleSignificantReal exampleImpl
              (Vec3 2 0 0) (Vec3 0 0 0) (exampleState\<lparr>Z := 0\<rparr>)))
            - SprZero (exampleState\<lparr>Z := 0\<rparr>))
        + (- Viscosity (params exampleImpl)) *\<^sub>R
          vxy (Data (realizeSubsystemDynamicsImpl exampleSignificantReal exampleImpl
              (Vec3 2 0 0) (Vec3 0 0 0) (exampleState\<lparr>Z := 0\<rparr>))))
    \<and> slidingOnRead (exampleState\<lparr>Z := 0\<rparr>) = 0
    \<and> limitReached (Data (realizeSubsystemDynamicsImpl exampleSignificantReal exampleImpl
        (Vec3 2 0 0) (Vec3 0 0 0) (exampleState\<lparr>Z := 0\<rparr>)))
    \<and> norm (fric (Data (realizeSubsystemDynamicsImpl exampleSignificantReal exampleImpl
        (Vec3 2 0 0) (Vec3 0 0 0) (exampleState\<lparr>Z := 0\<rparr>)))) = 7 / 10"
proof -
  let ?st = "exampleState\<lparr>Z := 0\<rparr>"
  let ?d = "Data (realizeSubsystemDynamicsImpl exampleSignificantReal exampleImpl
        (Vec3 2 0 0) (Vec3 0 0 0) ?st)"
  let ?E = "(- Elasticity (params exampleImpl)) *\<^sub>R (pxy ?d - SprZero ?st)"
  let ?D = "(- Viscosity (params exampleImpl)) *\<^sub>R vxy ?d"
  have m1: "0 \<le> MuKinetic ?st" and m2: "MuKinetic ?st \<le> MuStatic ?st"
    by (simp_all add: example_facts)
  have lim: "fxyLimit ?d = 7 / 10" by (rule example_stuck_limit)
  have E: "?E = Vec3 (- 2) 0 0" by (simp add: example_simps)
  have D: "?D = 0" by (simp add: example_simps)
  have nE: "norm (Vec3 (- 2) 0 0) = 2" by (simp add: norm_Vec3_def)
  have sat: "fxyLimit ?d < norm (?E + ?D)" by (simp only: lim E D add_0_right nE)
  have s0: "slidingOnRead ?st = 0" by (simp add: slidingOnRead_def)
  from C2_saturation[OF m1 m2 sat] s0 lim
  have "limitReached ?d \<and> norm (fric ?d) = 7 / 10" by simp
  with m1 m2 sat s0 show ?thesis by simp
qed

text \<open>
  C2 as stated fails: in the state topology realization leaves (Sliding = 1), a station
  at rest displaced by 2 from the spring zero exceeds the friction limit 0.5, and the
  friction force returned is zero.
\<close>

theorem C2_sliding_friction_below_limit:
  "fxyLimit (Data (realizeSubsystemDynamicsImpl exampleSignificantReal exampleImpl
        (Vec3 2 0 0) (Vec3 0 0 0) exampleState))
      < norm ((- Elasticity (params exampleImpl)) *\<^sub>R
          (pxy (Data (realizeSubsystemDynamicsImpl exampleSignificantReal exampleImpl
              (Vec3 2 0 0) (Vec3 0 0 0) exampleState)) - SprZero exampleState)
        + (- Viscosity (params exampleImpl)) *\<^sub>R
          vxy (Data (realizeSubsystemDynamicsImpl exampleSignificantReal exampleImpl
              (Vec3 2 0 0) (Vec3 0 0 0) exampleState)))
    \<and> limitReached (Data (realizeSubsystemDynamicsImpl exampleSignificantReal exampleImpl
        (Vec3 2 0 0) (Vec3 0 0 0) exampleState))
    \<and> fxyLimit (Data (realizeSubsystemDynamicsImpl exampleSignificantReal exampleImpl
        (Vec3 2 0 0) (Vec3 0 0 0) exampleState)) = 1 / 2
    \<and> norm (fric (Data (realizeSubsystemDynamicsImpl exampleSignificantReal exampleImpl
        (Vec3 2 0 0) (Vec3 0 0 0) exampleState))) = 0
    \<and> norm (fric (Data (realizeSubsystemDynamicsImpl exampleSignificantReal exampleImpl
        (Vec3 2 0 0) (Vec3 0 0 0) exampleState)))
      \<noteq> fxyLimit (Data (realizeSubsystemDynamicsImpl exampleSignificantReal exampleImpl
        (Vec3 2 0 0) (Vec3 0 0 0) exampleState))"
proof -
  let ?d = "Data (realizeSubsystemDynamicsImpl exampleSignificantReal exampleImpl
        (Vec3 2 0 0) (Vec3 0 0 0) exampleState)"
  let ?E = "(- Elasticity (params exampleImpl)) *\<^sub>R (pxy ?d - SprZero exampleState)"
  let ?D = "(- Viscosity (params exampleImpl)) *\<^sub>R vxy ?d"
  have lim: "fxyLimit ?d = 1 / 2" by (rule example_sliding_limit)
  have E: "?E = Vec3 (- 2) 0 0" by (simp add: example_simps)
  have D: "?D = 0" by (simp add: example_simps)
  have nE: "norm (Vec3 (- 2) 0 0) = 2" by (simp add: norm_Vec3_def)
  have sat: "fxyLimit ?d < norm (?E + ?D)" by (simp only: lim E D add_0_right nE)
  have spr: "limitSpring (fxyLimit ?d) ?E ?D
      = (True, (fxyLimit ?d / norm (?E + ?D)) *\<^sub>R ?E, (fxyLimit ?d / norm (?E + ?D)) *\<^sub>R ?D)"
    using sat by (rule limitSpring_saturated)
  have r: "limitReached ?d"
    by (simp only: realize_friction(1) spr fst_conv)
  have s1: "slidingOnRead exampleState = 1"
    by (simp add: slidingOnRead_def example_facts)
  have L: "fricLimitOf exampleSignificantReal (fxyLimit ?d) 0 = 0"
    by (simp only: lim) (simp add: fricLimitOf_def exampleSignificantReal_def)
  have "fric ?d = fricElas ?d + fricDamp ?d" by (rule realize_friction(4))
  also have "\<dots> = 0"
    by (simp only: realize_friction(2,3) s1 spr L D) simp
  finally have "norm (fric ?d) = 0" by simp
  with sat r lim show ?thesis by simp
qed

subsection \<open>The new spring zero\<close>

text \<open>
  C3. For a friction spring with nonzero elasticity and a spring zero that lies in the
  contact plane (as every spring zero the code writes does, see \<open>sprZero_in_plane\<close>),
  the spring zero written to the cache for the next step is
  \<open>pxy + fricElas / kpFriction\<close> with its normal component set to zero, and
  \<open>- kpFriction * (pxy - newAnchor)\<close> is again the elastic friction force \<open>fricElas\<close>
  of this step, scaled as it was by the friction limit and by the blend.
\<close>

theorem C3_anchor_update:
  fixes sig impl pG vG st
  defines "d \<equiv> Data (realizeSubsystemDynamicsImpl sig impl pG vG st)"
  defines "newAnchor \<equiv> SprZeroInCache (realizeSubsystemDynamicsImpl sig impl pG vG st)"
  assumes kp: "Elasticity (params impl) \<noteq> 0"
  assumes plane: "elt2 (SprZero st) = 0"
  shows "newAnchor = set2 (pxy d + vdiv (fricElas d) (Elasticity (params impl))) 0
    \<and> elt2 newAnchor = 0
    \<and> (- Elasticity (params impl)) *\<^sub>R (pxy d - newAnchor) = fricElas d"
proof -
  have new: "newAnchor = set2 (pxy d + vdiv (fricElas d) (Elasticity (params impl))) 0"
    unfolding newAnchor_def d_def by (simp add: realize_state(6) newSprZero_def Let_def)
  have pxy2: "elt2 (pxy d) = 0"
    unfolding d_def by (simp add: realize_kinematics(5) set2_def)
  have "elt2 ((- Elasticity (params impl)) *\<^sub>R (pxy d - SprZero st)) = 0"
    using pxy2 plane by (simp add: scaleR_Vec3_def minus_Vec3_def)
  then have "elt2 (fst (snd (limitSpring (fxyLimit d)
      ((- Elasticity (params impl)) *\<^sub>R (pxy d - SprZero st))
      ((- Viscosity (params impl)) *\<^sub>R vxy d)))) = 0"
    by (rule elt2_limitSpring)
  then have fe2: "elt2 (fricElas d) = 0"
    unfolding d_def by (simp add: realize_friction(2) scaleR_Vec3_def)
  have "(- Elasticity (params impl)) *\<^sub>R (pxy d - newAnchor) = fricElas d"
    unfolding new using kp pxy2 fe2 by (rule anchor_roundtrip)
  moreover have "elt2 newAnchor = 0" by (simp add: new set2_def)
  ultimately show ?thesis using new by simp
qed

text \<open>
  The hypotheses of C3 hold for the concrete subsystem with its sliding state set to 0:
  the elastic force is limited to \<open>(-0.7, 0, 0)\<close>, the new spring zero is
  \<open>(1.3, 0, 0)\<close>, and \<open>- 1 * ((2, 0, 0) - (1.3, 0, 0))\<close> is the elastic force.
\<close>

theorem C3_anchor_update_witness:
  "Elasticity (params exampleImpl) \<noteq> 0
    \<and> elt2 (SprZero (exampleState\<lparr>Z := 0\<rparr>)) = 0
    \<and> SprZeroInCache (realizeSubsystemDynamicsImpl exampleSignificantReal exampleImpl
        (Vec3 2 0 0) (Vec3 0 0 0) (exampleState\<lparr>Z := 0\<rparr>)) = Vec3 (13 / 10) 0 0
    \<and> (- Elasticity (params exampleImpl)) *\<^sub>R
        (pxy (Data (realizeSubsystemDynamicsImpl exampleSignificantReal exampleImpl
            (Vec3 2 0 0) (Vec3 0 0 0) (exampleState\<lparr>Z := 0\<rparr>)))
          - Vec3 (13 / 10) 0 0) = Vec3 (- (7 / 10)) 0 0"
proof -
  let ?st = "exampleState\<lparr>Z := 0\<rparr>"
  let ?d = "Data (realizeSubsystemDynamicsImpl exampleSignificantReal exampleImpl
        (Vec3 2 0 0) (Vec3 0 0 0) ?st)"
  have kp: "Elasticity (params exampleImpl) \<noteq> 0"
    by (simp add: example_facts unitParams_def)
  have pl: "elt2 (SprZero ?st) = 0"
    by (simp add: example_facts zero_Vec3_def)
  have pxy: "pxy ?d = Vec3 2 0 0" by (simp add: example_simps)
  note inst = C3_anchor_update[OF kp pl, of exampleSignificantReal "Vec3 2 0 0" "Vec3 0 0 0"]
  from inst have "SprZeroInCache (realizeSubsystemDynamicsImpl exampleSignificantReal exampleImpl
        (Vec3 2 0 0) (Vec3 0 0 0) ?st)
      = set2 (pxy ?d + vdiv (fricElas ?d) (Elasticity (params exampleImpl))) 0"
    by (rule conjunct1)
  also have "\<dots> = Vec3 (13 / 10) 0 0"
    by (simp add: example_stuck_fricElas pxy example_facts unitParams_def vdiv_def
        plus_Vec3_def set2_def)
  finally have new: "SprZeroInCache (realizeSubsystemDynamicsImpl exampleSignificantReal
        exampleImpl (Vec3 2 0 0) (Vec3 0 0 0) ?st) = Vec3 (13 / 10) 0 0" .
  from inst have "(- Elasticity (params exampleImpl)) *\<^sub>R
        (pxy ?d - SprZeroInCache (realizeSubsystemDynamicsImpl exampleSignificantReal
          exampleImpl (Vec3 2 0 0) (Vec3 0 0 0) ?st)) = fricElas ?d"
    by (rule conjunct2[THEN conjunct2])
  then have "(- Elasticity (params exampleImpl)) *\<^sub>R (pxy ?d - Vec3 (13 / 10) 0 0)
      = Vec3 (- (7 / 10)) 0 0"
    by (simp only: new example_stuck_fricElas)
  with kp pl new show ?thesis by simp
qed

subsection \<open>The damping force capped at the friction limit\<close>

text \<open>
  C9. With \<open>D = - kvFriction * vxy\<close> and a positive \<open>SignificantReal\<close>: when
  \<open>fxyLimit < SignificantReal\<close> the local \<open>fricLimit\<close> is the zero vector; otherwise it
  is \<open>D\<close>, or \<open>(fxyLimit / |D|) * D\<close> when \<open>|D| > fxyLimit\<close>, a positive multiple of
  \<open>D\<close> of length \<open>min |D| fxyLimit\<close>. Whenever \<open>|D| \<le> SignificantReal\<close> the result
  is the one that does not normalize \<open>D\<close>. With the sliding value 1 this vector is the
  whole friction force.
\<close>

theorem C9_damper_only_candidate:
  fixes sig impl pG vG st
  defines "d \<equiv> Data (realizeSubsystemDynamicsImpl sig impl pG vG st)"
  defines "D \<equiv> (- Viscosity (params impl)) *\<^sub>R vxy d"
  assumes sig: "0 < sig"
  shows "(fxyLimit d < sig \<longrightarrow> fricLimitOf sig (fxyLimit d) D = 0)
    \<and> (\<not> fxyLimit d < sig \<longrightarrow>
          fricLimitOf sig (fxyLimit d) D
            = (if norm D > fxyLimit d then (fxyLimit d / norm D) *\<^sub>R D else D)
          \<and> norm (fricLimitOf sig (fxyLimit d) D) = min (norm D) (fxyLimit d)
          \<and> (norm D > fxyLimit d \<longrightarrow> 0 < fxyLimit d / norm D))
    \<and> (norm D \<le> sig \<longrightarrow>
          fricLimitOf sig (fxyLimit d) D = (if fxyLimit d < sig then 0 else D))
    \<and> (slidingOnRead st = 1 \<longrightarrow> fric d = fricLimitOf sig (fxyLimit d) D)"
proof -
  let ?L = "fricLimitOf sig (fxyLimit d) D"
  have a: "fxyLimit d < sig \<longrightarrow> ?L = 0"
    by (simp add: fricLimitOf_cases)
  have b: "?L = (if norm D > fxyLimit d then (fxyLimit d / norm D) *\<^sub>R D else D)
      \<and> norm ?L = min (norm D) (fxyLimit d)
      \<and> (norm D > fxyLimit d \<longrightarrow> 0 < fxyLimit d / norm D)" if h: "\<not> fxyLimit d < sig"
  proof (cases "norm D > fxyLimit d")
    case True
    from h sig have pos: "0 < fxyLimit d" by linarith
    then have "0 \<le> fxyLimit d" by simp
    then have "norm ((fxyLimit d / norm D) *\<^sub>R D) = fxyLimit d"
      using True by (rule norm_scale_to_limit)
    moreover have "0 < norm D" using pos True by linarith
    then have "0 < fxyLimit d / norm D" using pos by (rule divide_pos_pos[rotated])
    ultimately show ?thesis using True h by (simp add: fricLimitOf_cases)
  next
    case False
    with h show ?thesis by (simp add: fricLimitOf_cases)
  qed
  have c: "norm D \<le> sig \<longrightarrow> ?L = (if fxyLimit d < sig then 0 else D)"
    by (simp add: fricLimitOf_def Let_def)
  have e: "fric d = ?L" if s1: "slidingOnRead st = 1"
  proof -
    have "fric d = fricElas d + fricDamp d"
      unfolding d_def by (rule realize_friction(4))
    then show ?thesis
      unfolding d_def D_def by (simp add: realize_friction(2,3) s1)
  qed
  show ?thesis using a b c e by blast
qed

text \<open>
  The hypothesis of C9 holds for \<open>SignificantReal = 1 / 10 ^ 14\<close>. On the concrete
  subsystem (sliding value 1) with tangential velocity \<open>(2, 0, 0)\<close> the damping force
  \<open>(-2, 0, 0)\<close> is capped to \<open>(-0.5, 0, 0)\<close>; with both coefficients of friction 0
  the friction limit is 0 and the friction force is zero.
\<close>

theorem C9_damper_only_candidate_witness:
  "0 < exampleSignificantReal
    \<and> \<not> fxyLimit (Data (realizeSubsystemDynamicsImpl exampleSignificantReal exampleImpl
          (Vec3 2 0 0) (Vec3 2 0 0) exampleState)) < exampleSignificantReal
    \<and> slidingOnRead exampleState = 1
    \<and> fric (Data (realizeSubsystemDynamicsImpl exampleSignificantReal exampleImpl
          (Vec3 2 0 0) (Vec3 2 0 0) exampleState)) = Vec3 (- (1 / 2)) 0 0
    \<and> fxyLimit (Data (realizeSubsystemDynamicsImpl exampleSignificantReal exampleImpl
          (Vec3 2 0 0) (Vec3 2 0 0) (exampleState\<lparr>MuStatic := 0, MuKinetic := 0\<rparr>)))
        < exampleSignificantReal
    \<and> fric (Data (realizeSubsystemDynamicsImpl exampleSignificantReal exampleImpl
          (Vec3 2 0 0) (Vec3 2 0 0) (exampleState\<lparr>MuStatic := 0, MuKinetic := 0\<rparr>))) = 0"
proof -
  let ?d = "Data (realizeSubsystemDynamicsImpl exampleSignificantReal exampleImpl
        (Vec3 2 0 0) (Vec3 2 0 0) exampleState)"
  let ?D = "(- Viscosity (params exampleImpl)) *\<^sub>R vxy ?d"
  let ?fl = "exampleState\<lparr>MuStatic := 0, MuKinetic := 0\<rparr>"
  let ?e = "Data (realizeSubsystemDynamicsImpl exampleSignificantReal exampleImpl
        (Vec3 2 0 0) (Vec3 2 0 0) ?fl)"
  let ?F = "(- Viscosity (params exampleImpl)) *\<^sub>R vxy ?e"
  have sg: "0 < exampleSignificantReal" by (simp add: exampleSignificantReal_def)
  note capped = C9_damper_only_candidate[OF sg, of exampleImpl "Vec3 2 0 0" "Vec3 2 0 0"
    exampleState]
  note zeroed = C9_damper_only_candidate[OF sg, of exampleImpl "Vec3 2 0 0" "Vec3 2 0 0" ?fl]
  have lim: "fxyLimit ?d = 1 / 2" by (rule example_sliding_limit)
  have big: "\<not> fxyLimit ?d < exampleSignificantReal"
    by (simp only: lim) (simp add: exampleSignificantReal_def)
  have s1: "slidingOnRead exampleState = 1"
    by (simp add: slidingOnRead_def example_facts)
  have D: "?D = Vec3 (- 2) 0 0"
    by (simp add: example_simps)
  have nD: "norm (Vec3 (- 2) 0 0) = 2" by (simp add: norm_Vec3_def)
  from capped big have "fricLimitOf exampleSignificantReal (fxyLimit ?d) ?D
      = (if norm ?D > fxyLimit ?d then (fxyLimit ?d / norm ?D) *\<^sub>R ?D else ?D)"
    by blast
  also have "\<dots> = Vec3 (- (1 / 2)) 0 0"
    by (simp only: lim D nD) (simp add: scaleR_Vec3_def)
  finally have L: "fricLimitOf exampleSignificantReal (fxyLimit ?d) ?D = Vec3 (- (1 / 2)) 0 0" .
  from capped s1 have "fric ?d = fricLimitOf exampleSignificantReal (fxyLimit ?d) ?D"
    by blast
  from this L have f1: "fric ?d = Vec3 (- (1 / 2)) 0 0" by (rule trans)
  have lim0: "fxyLimit ?e = 0" by (rule example_frictionless_limit)
  have small: "fxyLimit ?e < exampleSignificantReal"
    by (simp only: lim0) (simp add: exampleSignificantReal_def)
  have s10: "slidingOnRead ?fl = 1"
    by (simp add: slidingOnRead_def example_facts)
  from zeroed small have L0: "fricLimitOf exampleSignificantReal (fxyLimit ?e) ?F = 0"
    by blast
  from zeroed s10 have "fric ?e = fricLimitOf exampleSignificantReal (fxyLimit ?e) ?F"
    by blast
  from this L0 have f0: "fric ?e = 0" by (rule trans)
  from sg big s1 f1 small f0 show ?thesis by blast
qed

subsection \<open>The initial sliding state\<close>

text \<open>
  C10. Topology realization initializes the continuous Sliding state to 1 (fully
  sliding), whatever the state held before; it is not 0 (stuck), and a force evaluation
  that follows reads the sliding value 1.
\<close>

theorem C10_initial_sliding:
  "Z (realizeSubsystemTopologyImpl impl state) = 1
    \<and> Z (realizeSubsystemTopologyImpl impl state) \<noteq> 0
    \<and> slidingOnRead (realizeSubsystemTopologyImpl impl state) = 1"
  by (simp add: realizeSubsystemTopologyImpl_def slidingOnRead_def Let_def)

end
